theory Spec2Isabelle
  imports Complex_Main "HOL-Library.Sublist"
begin

section \<open>Python strings\<close>

text \<open>
  A Python \<open>str\<close> is modelled as a \<open>string\<close>: each \<open>char\<close> is one code point below 256.
  On that range \<open>str.isspace\<close>, which both \<open>str.strip\<close> and the pattern \<open>\s\<close> of \<open>re\<close>
  use, holds for the code points 9 to 13, 28 to 32, 133 and 160, and \<open>str.lower\<close> moves the
  letters A to Z and the Latin-1 capitals 192 to 222 (but not the sign 215) up by 32.
  Floats are modelled as reals.
\<close>

definition is_space :: "char \<Rightarrow> bool" where
  "is_space c = (let n = (of_char c :: nat) in
     (9 \<le> n \<and> n \<le> 13) \<or> (28 \<le> n \<and> n \<le> 32) \<or> n = 133 \<or> n = 160)"

definition lower_char :: "char \<Rightarrow> char" where
  "lower_char c = (let n = (of_char c :: nat) in
     if (65 \<le> n \<and> n \<le> 90) \<or> (192 \<le> n \<and> n \<le> 222 \<and> n \<noteq> 215)
     then char_of (n + 32) else c)"

definition lower :: "string \<Rightarrow> string" where
  "lower s = map lower_char s"

definition strip :: "string \<Rightarrow> string" where
  "strip s = rev (dropWhile is_space (rev (dropWhile is_space s)))"

text \<open>\<open>re.sub(r'\s+', ' ', text)\<close>: every maximal run of whitespace becomes one space.\<close>

function collapse_ws :: "string \<Rightarrow> string" where
  "collapse_ws [] = []"
| "collapse_ws (c # cs) =
     (if is_space c then CHR '' '' # collapse_ws (dropWhile is_space cs)
      else c # collapse_ws cs)"
  by pat_completeness auto
termination
  by (relation "measure length") (auto simp: less_Suc_eq_le length_dropWhile_le)

text \<open>\<open>sub in s\<close> on strings: \<open>sub\<close> occurs in \<open>s\<close> as a contiguous block.\<close>

fun py_in :: "string \<Rightarrow> string \<Rightarrow> bool" where
  "py_in sub [] = (sub = [])"
| "py_in sub (c # cs) = (prefix sub (c # cs) \<or> py_in sub cs)"

section \<open>The emotion analyzer\<close>

subsection \<open>Tables\<close>

text \<open>
  Both tables are dicts that the code iterates with \<open>.items()\<close>, so their insertion order
  matters: they are association lists in the order of the source.
\<close>

definition emotion_keywords :: "(string \<times> string list) list" where
  "emotion_keywords =
   [(''joy'', [''happy'', ''joyful'', ''excited'', ''cheerful'', ''delighted'', ''elated'',
               ''thrilled'', ''content'', ''pleased'', ''glad'']),
    (''sadness'', [''sad'', ''depressed'', ''melancholy'', ''gloomy'', ''dejected'',
               ''downhearted'', ''sorrowful'', ''unhappy'', ''blue'', ''down'']),
    (''anger'', [''angry'', ''furious'', ''mad'', ''irritated'', ''annoyed'', ''rage'',
               ''outraged'', ''livid'', ''frustrated'', ''pissed'']),
    (''fear'', [''afraid'', ''scared'', ''frightened'', ''terrified'', ''anxious'', ''worried'',
               ''nervous'', ''panicked'', ''fearful'', ''apprehensive'']),
    (''surprise'', [''surprised'', ''shocked'', ''amazed'', ''astonished'', ''stunned'',
               ''bewildered'', ''startled'', ''astounded'']),
    (''disgust'', [''disgusted'', ''revolted'', ''repulsed'', ''nauseated'', ''sickened'',
               ''appalled'', ''repelled'']),
    (''anticipation'', [''excited'', ''eager'', ''hopeful'', ''expectant'', ''anticipating'',
               ''looking forward'', ''optimistic'']),
    (''trust'', [''confident'', ''secure'', ''trusting'', ''faithful'', ''assured'', ''certain'',
               ''believing'']),
    (''love'', [''love'', ''adore'', ''cherish'', ''affectionate'', ''devoted'', ''caring'',
               ''tender'', ''romantic'']),
    (''anxiety'', [''anxious'', ''stressed'', ''overwhelmed'', ''tense'', ''uneasy'',
               ''restless'', ''agitated'', ''troubled''])]"

definition intensity_modifiers :: "(string \<times> real) list" where
  "intensity_modifiers =
   [(''very'', 1.5), (''extremely'', 2.0), (''really'', 1.3), (''quite'', 1.2),
    (''somewhat'', 0.8), (''slightly'', 0.6), (''a bit'', 0.7), (''incredibly'', 1.8),
    (''totally'', 1.6), (''completely'', 1.7)]"

subsection \<open>Preprocessing and keyword scores\<close>

definition preprocess_text :: "string \<Rightarrow> string" where
  "preprocess_text text = strip (collapse_ws (lower text))"

text \<open>
  The inner loop over the modifiers: the first modifier \<open>m\<close> with \<open>m + ' ' + keyword\<close> in
  the text multiplies the base score, and \<open>break\<close> ends the loop.
\<close>

fun apply_modifier :: "(string \<times> real) list \<Rightarrow> string \<Rightarrow> string \<Rightarrow> real \<Rightarrow> real" where
  "apply_modifier [] keyword text base_score = base_score"
| "apply_modifier ((modifier, multiplier) # ms) keyword text base_score =
     (if py_in (modifier @ '' '' @ keyword) text then base_score * multiplier
      else apply_modifier ms keyword text base_score)"

text \<open>The loop over the keywords of one emotion, \<open>score\<close> being the running sum.\<close>

fun score_keywords :: "string list \<Rightarrow> string \<Rightarrow> real \<Rightarrow> real" where
  "score_keywords [] text score = score"
| "score_keywords (keyword # ks) text score =
     (if py_in keyword text
      then score_keywords ks text (score + apply_modifier intensity_modifiers keyword text 1)
      else score_keywords ks text score)"

text \<open>
  The outer loop fills the dict \<open>emotion_scores\<close>; the labels of the lexicon are distinct,
  so every step inserts a new key at the end.
\<close>

fun score_emotions :: "(string \<times> string list) list \<Rightarrow> string \<Rightarrow> (string \<times> real) list" where
  "score_emotions [] text = []"
| "score_emotions ((emotion, keywords) # rest) text =
     (emotion, score_keywords keywords text 0) # score_emotions rest text"

definition detect_emotion_keywords :: "string \<Rightarrow> (string \<times> real) list" where
  "detect_emotion_keywords text = score_emotions emotion_keywords (preprocess_text text)"

subsection \<open>Sentiment\<close>

text \<open>
  TextBlob and VADER are libraries outside the repository. They enter the model as two
  parameters: \<open>textblob\<close> gives the pair (polarity, subjectivity) of a text and \<open>vader\<close>
  gives its four \<open>polarity_scores\<close>.
\<close>

record vader_scores =
  neg :: real
  neu :: real
  pos :: real
  compound :: real

record sentiment_data =
  textblob_polarity :: real
  textblob_subjectivity :: real
  vader :: vader_scores
  combined_sentiment :: real

definition analyze_sentiment ::
  "(string \<Rightarrow> real \<times> real) \<Rightarrow> (string \<Rightarrow> vader_scores) \<Rightarrow> string \<Rightarrow> sentiment_data" where
  "analyze_sentiment textblob vader_analyzer text =
     (let polarity = fst (textblob text);
          subjectivity = snd (textblob text);
          vs = vader_analyzer text
      in \<lparr> textblob_polarity = polarity,
           textblob_subjectivity = subjectivity,
           vader = vs,
           combined_sentiment = (polarity + compound vs) / 2 \<rparr>)"

definition classify_emotion_from_sentiment :: "sentiment_data \<Rightarrow> string" where
  "classify_emotion_from_sentiment sd =
     (let sentiment_score = combined_sentiment sd; vs = vader sd in
      if sentiment_score > 0.5 then ''joy''
      else if sentiment_score < - 0.5 then ''sadness''
      else if sentiment_score > 0.1 then ''anticipation''
      else if sentiment_score < - 0.1 then
        (if neg vs > 0.3 then (if compound vs < - 0.3 then ''anger'' else ''fear'')
         else ''sadness'')
      else (if neu vs > 0.7 then ''trust'' else ''anticipation''))"

subsection \<open>Confidence\<close>

text \<open>\<open>d.get(k, 0)\<close> on the score dict.\<close>

definition get_score :: "(string \<times> real) list \<Rightarrow> string \<Rightarrow> real" where
  "get_score emotion_scores k = (case map_of emotion_scores k of None \<Rightarrow> 0 | Some v \<Rightarrow> v)"

definition calculate_confidence ::
  "(string \<times> real) list \<Rightarrow> string \<Rightarrow> sentiment_data \<Rightarrow> real" where
  "calculate_confidence emotion_scores primary sd =
     (let keyword_score = get_score emotion_scores primary;
          sentiment_confidence = \<bar>combined_sentiment sd\<bar>;
          subjectivity = textblob_subjectivity sd;
          base_confidence = 0.4;
          keyword_confidence = min (keyword_score * 0.2) 0.3;
          sentiment_confidence_contrib = sentiment_confidence * 0.2;
          subjectivity_contrib = subjectivity * 0.1;
          total_confidence = base_confidence + keyword_confidence
                             + sentiment_confidence_contrib + subjectivity_contrib
      in min (max total_confidence 0.3) 0.95)"

subsection \<open>The main method\<close>

text \<open>
  \<open>max(values)\<close> and \<open>max(items, key=...)\<close> of Python: a left-to-right scan that replaces
  the best element so far only by a strictly greater one, so the first maximum is returned.
\<close>

fun max_value :: "'v::linorder \<Rightarrow> ('k \<times> 'v) list \<Rightarrow> 'v" where
  "max_value best [] = best"
| "max_value best (x # xs) = max_value (if snd x > best then snd x else best) xs"

fun max_item :: "'k \<times> 'v::linorder \<Rightarrow> ('k \<times> 'v) list \<Rightarrow> 'k \<times> 'v" where
  "max_item best [] = best"
| "max_item best (x # xs) = max_item (if snd x > snd best then x else best) xs"

record analysis =
  primary_emotion :: string
  confidence :: real
  sentiment_score :: real
  emotion_scores :: "(string \<times> real) list"
  sentiment :: "sentiment_data option"

text \<open>
  The second component of the result lists the scorers that the call has run, in order.
\<close>

datatype scorer = SentimentScorer | KeywordScorer

definition analyze_emotion ::
  "(string \<Rightarrow> real \<times> real) \<Rightarrow> (string \<Rightarrow> vader_scores) \<Rightarrow> string \<Rightarrow> analysis \<times> scorer list" where
  "analyze_emotion textblob vader_analyzer text =
     (if text = [] \<or> strip text = [] then
        (\<lparr> primary_emotion = ''neutral'', confidence = 0.5, sentiment_score = 0.0,
           emotion_scores = [], sentiment = None \<rparr>, [])
      else
        let sd = analyze_sentiment textblob vader_analyzer text;
            es = detect_emotion_keywords text;
            primary = (case es of
                         [] \<Rightarrow> classify_emotion_from_sentiment sd
                       | x # xs \<Rightarrow>
                           if max_value (snd x) xs > 0 then fst (max_item x xs)
                           else classify_emotion_from_sentiment sd);
            conf = calculate_confidence es primary sd
        in (\<lparr> primary_emotion = primary, confidence = conf,
              sentiment_score = combined_sentiment sd,
              emotion_scores = es, sentiment = Some sd \<rparr>,
            [SentimentScorer, KeywordScorer]))"

definition analyze ::
  "(string \<Rightarrow> real \<times> real) \<Rightarrow> (string \<Rightarrow> vader_scores) \<Rightarrow> string \<Rightarrow> analysis" where
  "analyze textblob vader_analyzer text = fst (analyze_emotion textblob vader_analyzer text)"

section \<open>The mood tracker\<close>

subsection \<open>Time\<close>

text \<open>
  A naive \<open>datetime\<close> is the number of microseconds since 0001-01-01 00:00:00, which is
  how Python compares and subtracts them. The values of \<open>datetime\<close> run from
  0001-01-01 00:00:00, which is 0, to 9999-12-31 23:59:59.999999, which is \<open>datetime_max\<close>.
\<close>

type_synonym datetime = int

definition us_per_day :: int where
  "us_per_day = 86400000000"

definition datetime_max :: datetime where
  "datetime_max = 315537897599999999"

definition toordinal :: "datetime \<Rightarrow> int" where
  "toordinal t = t div us_per_day + 1"

definition hour :: "datetime \<Rightarrow> int" where
  "hour t = (t mod us_per_day) div 3600000000"

text \<open>\<open>strftime('%A')\<close>: \<open>weekday()\<close> is \<open>(toordinal() + 6) % 7\<close>, Monday being 0.\<close>

definition day_name :: "datetime \<Rightarrow> string" where
  "day_name t =
     [''Monday'', ''Tuesday'', ''Wednesday'', ''Thursday'', ''Friday'', ''Saturday'', ''Sunday'']
       ! nat ((toordinal t + 6) mod 7)"

text \<open>\<open>str(n)\<close> for an integer.\<close>

function str_nat :: "nat \<Rightarrow> string" where
  "str_nat n = (if n < 10 then [char_of (48 + n)]
                else str_nat (n div 10) @ [char_of (48 + n mod 10)])"
  by pat_completeness auto
termination
  by (relation "measure id") auto

definition str_int :: "int \<Rightarrow> string" where
  "str_int i = (if i < 0 then CHR ''-'' # str_nat (nat (- i)) else str_nat (nat i))"

text \<open>The exceptions that the tracker can raise, each with its message.\<close>

datatype error = ValueError string | OverflowError string

text \<open>
  \<open>timedelta(days=d)\<close>, in microseconds: the number of days of a \<open>timedelta\<close> is at most
  999999999 in magnitude.
\<close>

definition timedelta_days :: "int \<Rightarrow> error + int" where
  "timedelta_days d =
     (if \<bar>d\<bar> > 999999999
      then Inl (OverflowError (''days='' @ str_int d @ ''; must have magnitude <= 999999999''))
      else Inr (d * us_per_day))"

text \<open>
  \<open>t - delta\<close> for a \<open>datetime\<close> and a \<open>timedelta\<close>: the difference has to be a
  \<open>datetime\<close> again.
\<close>

definition datetime_sub :: "datetime \<Rightarrow> int \<Rightarrow> error + datetime" where
  "datetime_sub t delta =
     (if t - delta < 0 \<or> t - delta > datetime_max
      then Inl (OverflowError ''date value out of range'')
      else Inr (t - delta))"

text \<open>
  The ordinal of a day to its year, month and day, as \<open>datetime\<close> computes it from the
  lengths of the 400, 100, 4 and 1 year cycles.
\<close>

definition days_before_month :: "int list" where
  "days_before_month = [0, 31, 59, 90, 120, 151, 181, 212, 243, 273, 304, 334]"

definition days_in_month :: "int list" where
  "days_in_month = [31, 28, 31, 30, 31, 30, 31, 31, 30, 31, 30, 31]"

definition ord2ymd :: "int \<Rightarrow> int \<times> int \<times> int" where
  "ord2ymd n0 =
     (let n = n0 - 1;
          n400 = n div 146097; n = n mod 146097;
          n100 = n div 36524; n = n mod 36524;
          n4 = n div 1461; n = n mod 1461;
          n1 = n div 365; n = n mod 365;
          y = n400 * 400 + 1 + n100 * 100 + n4 * 4 + n1
      in if n1 = 4 \<or> n100 = 4 then (y - 1, 12, 31)
         else
           let leapyear = (n1 = 3 \<and> (n4 \<noteq> 24 \<or> n100 = 3));
               month = (n + 50) div 32;
               preceding = days_before_month ! nat (month - 1)
                           + (if month > 2 \<and> leapyear then 1 else 0)
           in if preceding > n then
                let month = month - 1;
                    preceding = preceding - (days_in_month ! nat (month - 1)
                                  + (if month = 2 \<and> leapyear then 1 else 0))
                in (y, month, n - preceding + 1)
              else (y, month, n - preceding + 1))"

definition pad2 :: "int \<Rightarrow> string" where
  "pad2 i = (if i < 10 then CHR ''0'' # str_int i else str_int i)"

text \<open>\<open>strftime('%Y-%m-%d')\<close>; the year is printed as glibc does, without padding.\<close>

definition date_key :: "datetime \<Rightarrow> string" where
  "date_key t = (case ord2ymd (toordinal t) of
                   (y, m, d) \<Rightarrow> str_int y @ ''-'' @ pad2 m @ ''-'' @ pad2 d)"

subsection \<open>Entries\<close>

text \<open>
  An entry is the dict that \<open>add_entry\<close> builds; the keys \<open>text\<close>, \<open>confidence\<close> and
  \<open>sentiment_score\<close> carry the prefix \<open>entry\<close> here. The clock read by \<open>datetime.now()\<close>
  is the parameter \<open>now\<close> of every operation that reads it.
\<close>

record entry =
  timestamp :: datetime
  entry_text :: string
  emotion :: string
  entry_confidence :: real
  entry_sentiment_score :: real

definition add_entry ::
  "entry list \<Rightarrow> datetime \<Rightarrow> string \<Rightarrow> string \<Rightarrow> real \<Rightarrow> real \<Rightarrow> entry list" where
  "add_entry entries now txt emo conf sent =
     entries @ [\<lparr> timestamp = now, entry_text = txt, emotion = emo,
                  entry_confidence = conf, entry_sentiment_score = sent \<rparr>]"

text \<open>
  The cutoff \<open>datetime.now() - timedelta(days=days_back)\<close> raises \<open>OverflowError\<close> when
  \<open>days_back\<close> is too large for a \<open>timedelta\<close> or when the cutoff is not a \<open>datetime\<close>.
\<close>

definition get_entries_by_date_range ::
  "entry list \<Rightarrow> datetime \<Rightarrow> int \<Rightarrow> error + entry list" where
  "get_entries_by_date_range entries now days_back =
     (case timedelta_days days_back of
        Inl err \<Rightarrow> Inl err
      | Inr delta \<Rightarrow>
          (case datetime_sub now delta of
             Inl err \<Rightarrow> Inl err
           | Inr cutoff_date \<Rightarrow> Inr (filter (\<lambda>e. timestamp e \<ge> cutoff_date) entries)))"

subsection \<open>Counting dicts\<close>

text \<open>
  \<open>d[k] = d.get(k, 0) + 1\<close> on a dict in insertion order: a key that is present keeps
  its place, a new key goes to the end.
\<close>

fun bump :: "(string \<times> nat) list \<Rightarrow> string \<Rightarrow> (string \<times> nat) list" where
  "bump [] k = [(k, 1)]"
| "bump ((k', n) # d) k = (if k' = k then (k', n + 1) # d else (k', n) # bump d k)"

fun count_keys :: "(string \<times> nat) list \<Rightarrow> string list \<Rightarrow> (string \<times> nat) list" where
  "count_keys d [] = d"
| "count_keys d (k # ks) = count_keys (bump d k) ks"

text \<open>\<open>max(d.items(), key=lambda x: x[1])[0]\<close>, which raises on an empty dict.\<close>

definition max_key :: "(string \<times> nat) list \<Rightarrow> error + string" where
  "max_key d = (case d of [] \<Rightarrow> Inl (ValueError ''max() arg is an empty sequence'')
                | x # xs \<Rightarrow> Inr (fst (max_item x xs)))"

text \<open>\<open>np.mean\<close> of a list; every call of the tracker passes a non-empty list.\<close>

definition mean :: "real list \<Rightarrow> real" where
  "mean xs = sum_list xs / real (length xs)"

subsection \<open>Statistics\<close>

record statistics =
  total_entries :: nat
  most_common_emotion :: string
  avg_confidence :: real
  avg_sentiment :: real
  emotion_distribution :: "(string \<times> nat) list"
  daily_counts :: "(string \<times> nat) list"
  trend :: string

definition sentiment_trend :: "entry list \<Rightarrow> string" where
  "sentiment_trend entries =
     (if length entries \<ge> 4 then
        let mid_point = length entries div 2;
            first_half_sentiment = mean (map entry_sentiment_score (take mid_point entries));
            second_half_sentiment = mean (map entry_sentiment_score (drop mid_point entries))
        in if second_half_sentiment > first_half_sentiment + 0.1 then ''improving''
           else if second_half_sentiment < first_half_sentiment - 0.1 then ''declining''
           else ''stable''
      else ''insufficient data'')"

definition get_statistics :: "entry list \<Rightarrow> datetime \<Rightarrow> int \<Rightarrow> error + statistics" where
  "get_statistics all_entries now days_back =
     (case get_entries_by_date_range all_entries now days_back of
        Inl err \<Rightarrow> Inl err
      | Inr entries \<Rightarrow>
      if entries = [] then
        Inr \<lparr> total_entries = 0, most_common_emotion = ''none'', avg_confidence = 0,
              avg_sentiment = 0, emotion_distribution = [], daily_counts = [],
              trend = ''no data'' \<rparr>
      else
        let emotions = map emotion entries;
            confidences = map entry_confidence entries;
            sentiments = map entry_sentiment_score entries;
            emotion_counts = count_keys [] emotions
        in case max_key emotion_counts of
             Inl err \<Rightarrow> Inl err
           | Inr most_common \<Rightarrow>
               Inr \<lparr> total_entries = length entries,
                     most_common_emotion = most_common,
                     avg_confidence = mean confidences,
                     avg_sentiment = mean sentiments,
                     emotion_distribution = emotion_counts,
                     daily_counts = count_keys [] (map (\<lambda>e. date_key (timestamp e)) entries),
                     trend = sentiment_trend entries \<rparr>)"

subsection \<open>Patterns\<close>

text \<open>
  \<open>d[k].append(v)\<close> on a dict of lists in insertion order, a missing key being created
  with the empty list first.
\<close>

fun group_append ::
  "(string \<times> string list) list \<Rightarrow> string \<Rightarrow> string \<Rightarrow> (string \<times> string list) list" where
  "group_append [] k v = [(k, [v])]"
| "group_append ((k', vs) # d) k v =
     (if k' = k then (k', vs @ [v]) # d else (k', vs) # group_append d k v)"

fun group_by_day ::
  "(string \<times> string list) list \<Rightarrow> entry list \<Rightarrow> (string \<times> string list) list" where
  "group_by_day d [] = d"
| "group_by_day d (e # es) =
     group_by_day (group_append d (day_name (timestamp e)) (emotion e)) es"

definition time_period :: "int \<Rightarrow> string" where
  "time_period h =
     (if 5 \<le> h \<and> h < 12 then ''morning''
      else if 12 \<le> h \<and> h < 17 then ''afternoon''
      else if 17 \<le> h \<and> h < 22 then ''evening''
      else ''night'')"

fun group_by_time ::
  "(string \<times> string list) list \<Rightarrow> entry list \<Rightarrow> (string \<times> string list) list" where
  "group_by_time d [] = d"
| "group_by_time d (e # es) =
     group_by_time (group_append d (time_period (hour (timestamp e))) (emotion e)) es"

text \<open>
  The two loops that pick the most common emotion of every group. The loop over the days
  takes every group; the loop over the time periods skips the empty ones.
\<close>

fun day_emotions :: "(string \<times> string list) list \<Rightarrow> error + (string \<times> string) list" where
  "day_emotions [] = Inr []"
| "day_emotions ((day, emotions) # rest) =
     (case max_key (count_keys [] emotions) of
        Inl err \<Rightarrow> Inl err
      | Inr m \<Rightarrow> (case day_emotions rest of
                    Inl err \<Rightarrow> Inl err
                  | Inr r \<Rightarrow> Inr ((day, m) # r)))"

fun time_emotions :: "(string \<times> string list) list \<Rightarrow> error + (string \<times> string) list" where
  "time_emotions [] = Inr []"
| "time_emotions ((period, emotions) # rest) =
     (if emotions \<noteq> [] then
        (case max_key (count_keys [] emotions) of
           Inl err \<Rightarrow> Inl err
         | Inr m \<Rightarrow> (case time_emotions rest of
                       Inl err \<Rightarrow> Inl err
                     | Inr r \<Rightarrow> Inr ((period, m) # r)))
      else time_emotions rest)"

record patterns =
  day_patterns :: "(string \<times> string) list"
  time_patterns :: "(string \<times> string) list"

text \<open>The result \<open>None\<close> is the empty dict that the method returns for an empty window.\<close>

definition get_emotion_patterns ::
  "entry list \<Rightarrow> datetime \<Rightarrow> int \<Rightarrow> error + patterns option" where
  "get_emotion_patterns all_entries now days_back =
     (case get_entries_by_date_range all_entries now days_back of
        Inl err \<Rightarrow> Inl err
      | Inr entries \<Rightarrow>
      if entries = [] then Inr None
      else
        case day_emotions (group_by_day [] entries) of
          Inl err \<Rightarrow> Inl err
        | Inr de \<Rightarrow>
            (case time_emotions (group_by_time
                    [(''morning'', []), (''afternoon'', []), (''evening'', []), (''night'', [])]
                    entries) of
               Inl err \<Rightarrow> Inl err
             | Inr te \<Rightarrow> Inr (Some \<lparr> day_patterns = de, time_patterns = te \<rparr>)))"

subsection \<open>Streaks\<close>

record streak =
  streak_emotion :: string
  streak_count :: nat
  start_date :: datetime

text \<open>
  The loop of \<open>get_recent_streaks\<close> runs over the indices \<open>len - 2\<close> down to 0, that is
  over the entries before the last one, newest first.
\<close>

fun streak_loop :: "entry list \<Rightarrow> streak list \<Rightarrow> streak \<Rightarrow> streak list \<times> streak" where
  "streak_loop [] streaks current_streak = (streaks, current_streak)"
| "streak_loop (e # es) streaks current_streak =
     (if emotion e = streak_emotion current_streak then
        streak_loop es streaks
          (current_streak\<lparr> streak_count := streak_count current_streak + 1,
                            start_date := timestamp e \<rparr>)
      else
        streak_loop es
          (if streak_count current_streak \<ge> 2 then streaks @ [current_streak] else streaks)
          \<lparr> streak_emotion = emotion e, streak_count = 1, start_date = timestamp e \<rparr>)"

definition get_recent_streaks :: "entry list \<Rightarrow> streak list" where
  "get_recent_streaks entries =
     (if length entries < 2 then []
      else
        case streak_loop (tl (rev entries)) []
               \<lparr> streak_emotion = emotion (last entries), streak_count = 1,
                 start_date = timestamp (last entries) \<rparr> of
          (streaks, current_streak) \<Rightarrow>
            if streak_count current_streak \<ge> 2 then streaks @ [current_streak] else streaks)"

subsection \<open>Export\<close>

text \<open>
  The data frame built from the entries has one column per key. The serialisers of pandas,
  \<open>to_csv\<close> and \<open>to_json\<close>, are parameters.
\<close>

datatype cell = Time datetime | Str string | Num real

record frame =
  columns :: "string list"
  rows :: "cell list list"

definition DataFrame :: "entry list \<Rightarrow> frame" where
  "DataFrame entries =
     \<lparr> columns = [''timestamp'', ''text'', ''emotion'', ''confidence'', ''sentiment_score''],
       rows = map (\<lambda>e. [Time (timestamp e), Str (entry_text e), Str (emotion e),
                         Num (entry_confidence e), Num (entry_sentiment_score e)]) entries \<rparr>"

text \<open>\<open>df.drop('text', axis=1)\<close>: the column of that name goes.\<close>

definition drop_text :: "frame \<Rightarrow> frame" where
  "drop_text df =
     \<lparr> columns = filter (\<lambda>c. c \<noteq> ''text'') (columns df),
       rows = map (\<lambda>r. map snd (filter (\<lambda>(c, v). c \<noteq> ''text'') (zip (columns df) r)))
                  (rows df) \<rparr>"

definition export_data ::
  "(frame \<Rightarrow> string) \<Rightarrow> (frame \<Rightarrow> string) \<Rightarrow> entry list \<Rightarrow> string \<Rightarrow> bool
   \<Rightarrow> error + string" where
  "export_data to_csv to_json entries format include_text =
     (if entries = [] then Inr []
      else
        let df = DataFrame entries;
            df = (if \<not> include_text then drop_text df else df)
        in if lower format = ''csv'' then Inr (to_csv df)
           else if lower format = ''json'' then Inr (to_json df)
           else Inl (ValueError (''Format must be 'csv' or 'json'' @ [CHR 0x27])))"

subsection \<open>Insights\<close>

text \<open>\<open>', '.join(xs)\<close>.\<close>

fun join_comma :: "string list \<Rightarrow> string" where
  "join_comma [] = []"
| "join_comma [x] = x"
| "join_comma (x # y # ys) = x @ '', '' @ join_comma (y # ys)"

definition get_insights :: "entry list \<Rightarrow> datetime \<Rightarrow> int \<Rightarrow> error + string list" where
  "get_insights all_entries now days_back =
     (case get_statistics all_entries now days_back of
        Inl err \<Rightarrow> Inl err
      | Inr stats \<Rightarrow>
      (case get_emotion_patterns all_entries now days_back of
        Inl err \<Rightarrow> Inl err
      | Inr pats \<Rightarrow>
        let streaks = get_recent_streaks all_entries;
            insights = [];
            insights =
              (if total_entries stats > 0 then
                 insights
                 @ [''You've logged '' @ str_nat (total_entries stats)
                    @ '' mood entries in the past '' @ str_int days_back @ '' days.'']
                 @ [''Your most common emotion has been '' @ most_common_emotion stats @ ''.'']
               else insights);
            insights =
              (if trend stats = ''improving'' then
                 insights @ [''Your overall mood has been trending upward recently. Keep up the positive momentum!'']
               else if trend stats = ''declining'' then
                 insights @ [''Your mood has been trending downward recently. Consider reaching out for support if needed.'']
               else if trend stats = ''stable'' then
                 insights @ [''Your mood has been relatively stable recently.'']
               else insights);
            insights =
              (case pats of
                 None \<Rightarrow> insights
               | Some ps \<Rightarrow>
                   if day_patterns ps \<noteq> [] then
                     let busiest_days = map fst (day_patterns ps)
                     in if length busiest_days > 0 then
                          insights @ [''You tend to log entries most often on ''
                                      @ join_comma busiest_days @ ''.'']
                        else insights
                   else insights);
            insights =
              (case streaks of
                 [] \<Rightarrow> insights
               | recent_streak # _ \<Rightarrow>
                   if streak_count recent_streak \<ge> 3 then
                     insights @ [''You've had '' @ str_nat (streak_count recent_streak)
                                 @ '' consecutive entries of '' @ streak_emotion recent_streak
                                 @ ''.'']
                   else insights)
        in Inr insights))"


section \<open>Reference definitions\<close>

text \<open>
  The definitions of this section are not taken from the code. They state, in the words of
  the specification, what the code is compared with.
\<close>

text \<open>
  The emotion with the maximum keyword score, the first label in the enumeration order of
  the score map that reaches the maximum.
\<close>

definition spec_first_max :: "(string \<times> real) list \<Rightarrow> string" where
  "spec_first_max es =
     (case find (\<lambda>p. \<forall>q\<in>set es. snd q \<le> snd p) es of Some p \<Rightarrow> fst p | None \<Rightarrow> [])"

text \<open>The decision ladder on the combined sentiment \<open>c\<close>, first match winning.\<close>

definition spec_ladder :: "real \<Rightarrow> vader_scores \<Rightarrow> string" where
  "spec_ladder c vs =
     (if c > 0.5 then ''joy''
      else if c < - 0.5 then ''sadness''
      else if c > 0.1 then ''anticipation''
      else if c < - 0.1 then
        (if neg vs > 0.3 \<and> compound vs < - 0.3 then ''anger''
         else if neg vs > 0.3 \<and> compound vs \<ge> - 0.3 then ''fear''
         else ''sadness'')
      else if neu vs > 0.7 then ''trust''
      else ''anticipation'')"

definition spec_clamp :: "real \<Rightarrow> real \<Rightarrow> real \<Rightarrow> real" where
  "spec_clamp lo hi x = (if x < lo then lo else if x > hi then hi else x)"

text \<open>
  What one keyword adds to the score of its emotion: nothing when it does not occur in the
  normalized text, and otherwise the base score 1 after the modifier loop.
\<close>

definition keyword_contribution :: "string \<Rightarrow> string \<Rightarrow> real" where
  "keyword_contribution keyword text =
     (if py_in keyword text then apply_modifier intensity_modifiers keyword text 1 else 0)"

text \<open>
  The maximal runs of consecutive entries with the same emotion, in the order of the list.
\<close>

fun runs :: "entry list \<Rightarrow> entry list list" where
  "runs [] = []"
| "runs (e # es) =
     (case runs es of
        [] \<Rightarrow> [[e]]
      | r # rs \<Rightarrow> if emotion (hd r) = emotion e then (e # r) # rs else [e] # r # rs)"

text \<open>
  The streak of a run that is listed newest first: its emotion, its length and the
  timestamp of its oldest entry, which is the last one of the run.
\<close>

definition streak_of_run :: "entry list \<Rightarrow> streak" where
  "streak_of_run r =
     \<lparr> streak_emotion = emotion (hd r), streak_count = length r, start_date = timestamp (last r) \<rparr>"

definition spec_streaks :: "entry list \<Rightarrow> streak list" where
  "spec_streaks entries =
     map streak_of_run (filter (\<lambda>r. length r \<ge> 2) (runs (rev entries)))"

section \<open>Sample data\<close>

text \<open>
  Stand-ins for the two estimators and the two serialisers, and entries at chosen times,
  for the examples. The time \<open>monday_morning\<close> is 2024-01-01 09:30:00, a Monday.
\<close>

definition flat_textblob :: "string \<Rightarrow> real \<times> real" where
  "flat_textblob text = (0, 0)"

definition flat_vader :: "string \<Rightarrow> vader_scores" where
  "flat_vader text = \<lparr> neg = 0, neu = 1, pos = 0, compound = 0 \<rparr>"

definition csv_stub :: "frame \<Rightarrow> string" where
  "csv_stub df = ''csv''"

definition json_stub :: "frame \<Rightarrow> string" where
  "json_stub df = ''json''"

definition monday_morning :: datetime where
  "monday_morning = 63839698200000000"

definition sample_entry :: "datetime \<Rightarrow> string \<Rightarrow> real \<Rightarrow> entry" where
  "sample_entry t emo sent =
     \<lparr> timestamp = t, entry_text = ''note'', emotion = emo,
       entry_confidence = 0.5, entry_sentiment_score = sent \<rparr>"

section \<open>Facts about strings\<close>

lemma dropWhile_all_iff: "dropWhile P xs = [] \<longleftrightarrow> (\<forall>x\<in>set xs. P x)"
  by (induction xs) auto

lemma strip_empty_iff: "strip s = [] \<longleftrightarrow> (\<forall>c\<in>set s. is_space c)"
proof
  assume "strip s = []"
  then have "\<forall>x\<in>set (dropWhile is_space s). is_space x"
    by (simp add: strip_def dropWhile_all_iff)
  then have "dropWhile is_space s = []"
    using hd_dropWhile [of is_space s] hd_in_set [of "dropWhile is_space s"] by blast
  then show "\<forall>c\<in>set s. is_space c"
    by (simp add: dropWhile_all_iff)
next
  assume "\<forall>c\<in>set s. is_space c"
  then have "dropWhile is_space s = []"
    by (simp add: dropWhile_all_iff)
  then have "strip s = rev (dropWhile is_space (rev []))"
    by (simp only: strip_def)
  then show "strip s = []"
    by simp
qed

lemma blank_iff: "(text = [] \<or> strip text = []) \<longleftrightarrow> (\<forall>c\<in>set text. is_space c)"
  using strip_empty_iff [of "text"] by auto

lemma py_in_sublist: "py_in sub s \<longleftrightarrow> sublist sub s"
  by (induction s) (auto simp: sublist_Cons_right)

lemma py_in_append: "py_in (a @ b) s \<Longrightarrow> py_in b s"
  unfolding py_in_sublist sublist_def by (metis append.assoc)

section \<open>Facts about the maximum scans\<close>

lemma max_value_pos:
  "max_value b xs > (0::real) \<longleftrightarrow> b > 0 \<or> (\<exists>p\<in>set xs. snd p > 0)"
  by (induction xs arbitrary: b) auto

lemma max_item_ge:
  "snd b \<le> snd (max_item b xs) \<and> (\<forall>q\<in>set xs. snd q \<le> snd (max_item b xs))"
proof (induction xs arbitrary: b)
  case Nil
  show ?case by simp
next
  case (Cons x xs)
  show ?case
    using Cons.IH [of "if snd x > snd b then x else b"]
    by (auto split: if_splits)
qed

lemma max_item_mem: "max_item b xs \<in> set (b # xs)"
proof (induction xs arbitrary: b)
  case Nil
  show ?case by simp
next
  case (Cons x xs)
  show ?case
    using Cons.IH [of "if snd x > snd b then x else b"]
    by (auto split: if_splits)
qed

lemma find_max_step:
  assumes "find (\<lambda>p. snd p = m) ((if snd x > snd b then x else b) # xs) = Some r"
    and "snd (if snd x > snd b then x else b) \<le> (m::'v::linorder)"
  shows "find (\<lambda>p. snd p = m) (b # x # xs) = Some r"
  using assms by (auto split: if_splits)

lemma max_item_first:
  "find (\<lambda>p. snd p = snd (max_item b xs)) (b # xs) = Some (max_item b xs)"
proof (induction xs arbitrary: b)
  case Nil
  show ?case by simp
next
  case (Cons x xs)
  let ?b = "if snd x > snd b then x else b"
  have "find (\<lambda>p. snd p = snd (max_item ?b xs)) (b # x # xs) = Some (max_item ?b xs)"
    using Cons.IH [of ?b] max_item_ge [of ?b xs] by (intro find_max_step) blast+
  then show ?case by (simp only: max_item.simps)
qed

lemma max_item_spec: "fst (max_item x xs) = spec_first_max (x # xs)"
proof -
  let ?r = "max_item x xs"
  have "find (\<lambda>p. \<forall>q\<in>set (x # xs). snd q \<le> snd p) (x # xs)
        = find (\<lambda>p. snd p = snd ?r) (x # xs)"
  proof (rule find_cong [OF refl])
    fix p assume p: "p \<in> set (x # xs)"
    have ge: "\<forall>q\<in>set (x # xs). snd q \<le> snd ?r" using max_item_ge [of x xs] by simp
    show "(\<forall>q\<in>set (x # xs). snd q \<le> snd p) = (snd p = snd ?r)"
    proof
      assume "\<forall>q\<in>set (x # xs). snd q \<le> snd p"
      then have "snd ?r \<le> snd p" using max_item_mem [of x xs] by blast
      moreover have "snd p \<le> snd ?r" using ge p by blast
      ultimately show "snd p = snd ?r" by simp
    next
      assume "snd p = snd ?r"
      then show "\<forall>q\<in>set (x # xs). snd q \<le> snd p" using ge by simp
    qed
  qed
  then show ?thesis
    by (simp only: spec_first_max_def max_item_first option.case)
qed

lemma primary_choice:
  "(case es of [] \<Rightarrow> d | x # xs \<Rightarrow> if max_value (snd x) xs > 0 then fst (max_item x xs) else d)
   = (if \<exists>p\<in>set es. snd p > (0::real) then spec_first_max es else d)"
proof (cases es)
  case Nil
  then show ?thesis by simp
next
  case (Cons x xs)
  then show ?thesis
    using max_item_spec [of x xs] by (simp add: max_value_pos)
qed

lemma spec_first_max_mem:
  assumes "es \<noteq> []"
  shows "spec_first_max es \<in> fst ` set es"
proof -
  obtain x xs where es: "es = x # xs" using assms by (cases es) auto
  have "fst (max_item x xs) \<in> fst ` set (x # xs)"
    using max_item_mem [of x xs] by blast
  then show ?thesis by (simp only: es max_item_spec)
qed

lemma ladder_spec:
  "classify_emotion_from_sentiment sd = spec_ladder (combined_sentiment sd) (vader sd)"
  by (simp add: classify_emotion_from_sentiment_def spec_ladder_def Let_def)

lemma spec_ladder_labels:
  "spec_ladder c vs \<in> {''joy'', ''sadness'', ''anticipation'', ''anger'', ''fear'', ''trust''}"
  by (simp add: spec_ladder_def)

section \<open>Facts about the keyword scores\<close>

lemma score_emotions_keys: "map fst (score_emotions lexicon t) = map fst lexicon"
  by (induction lexicon t rule: score_emotions.induct) simp_all

lemma score_emotions_lookup:
  "distinct (map fst lexicon) \<Longrightarrow> (e, ks) \<in> set lexicon \<Longrightarrow>
   map_of (score_emotions lexicon t) e = Some (score_keywords ks t 0)"
proof (induction lexicon t rule: score_emotions.induct)
  case (1 t)
  then show ?case by simp
next
  case (2 e kws rest t)
  then show ?case by (auto simp: rev_image_eqI)
qed

lemma score_emotions_set:
  "p \<in> set (score_emotions lexicon t) \<Longrightarrow> \<exists>ks. (fst p, ks) \<in> set lexicon \<and> snd p = score_keywords ks t 0"
  by (induction lexicon t rule: score_emotions.induct) auto

lemma score_keywords_sum:
  "score_keywords ks t s = s + (\<Sum>k\<leftarrow>ks. keyword_contribution k t)"
  by (induction ks arbitrary: s) (simp_all add: keyword_contribution_def)

lemma modifiers_range: "\<forall>p\<in>set intensity_modifiers. 0.6 \<le> snd p \<and> snd p \<le> 2.0"
  by (simp add: intensity_modifiers_def)

lemma apply_modifier_first:
  assumes "\<exists>p\<in>set ms. py_in (fst p @ '' '' @ k) t"
  shows "\<exists>i<length ms. py_in (fst (ms ! i) @ '' '' @ k) t
           \<and> (\<forall>j<i. \<not> py_in (fst (ms ! j) @ '' '' @ k) t)
           \<and> apply_modifier ms k t b = b * snd (ms ! i)"
  using assms
proof (induction ms)
  case Nil
  then show ?case by simp
next
  case (Cons a ms)
  obtain m x where a: "a = (m, x)" by (cases a)
  show ?case
  proof (cases "py_in (m @ '' '' @ k) t")
    case True
    then have "py_in (fst ((a # ms) ! 0) @ '' '' @ k) t
           \<and> (\<forall>j<0. \<not> py_in (fst ((a # ms) ! j) @ '' '' @ k) t)
           \<and> apply_modifier (a # ms) k t b = b * snd ((a # ms) ! 0)"
      by (simp add: a)
    then show ?thesis by blast
  next
    case False
    with Cons.prems a have "\<exists>p\<in>set ms. py_in (fst p @ '' '' @ k) t" by auto
    from Cons.IH [OF this] obtain i where i: "i < length ms"
      "py_in (fst (ms ! i) @ '' '' @ k) t"
      "\<forall>j<i. \<not> py_in (fst (ms ! j) @ '' '' @ k) t"
      "apply_modifier ms k t b = b * snd (ms ! i)" by blast
    have "\<forall>j<Suc i. \<not> py_in (fst ((a # ms) ! j) @ '' '' @ k) t"
      using i(3) False a by (auto simp: less_Suc_eq_0_disj)
    then have "Suc i < length (a # ms) \<and> py_in (fst ((a # ms) ! Suc i) @ '' '' @ k) t
           \<and> (\<forall>j<Suc i. \<not> py_in (fst ((a # ms) ! j) @ '' '' @ k) t)
           \<and> apply_modifier (a # ms) k t b = b * snd ((a # ms) ! Suc i)"
      using i False a by simp
    then show ?thesis by blast
  qed
qed

lemma apply_modifier_nonneg:
  "\<forall>p\<in>set ms. 0 \<le> snd p \<Longrightarrow> 0 \<le> b \<Longrightarrow> 0 \<le> apply_modifier ms k t b"
  by (induction ms k t b rule: apply_modifier.induct) auto

lemma keyword_contribution_nonneg: "0 \<le> keyword_contribution k t"
proof -
  have "\<forall>p\<in>set intensity_modifiers. 0 \<le> snd p"
    using modifiers_range by force
  then show ?thesis
    by (simp add: keyword_contribution_def apply_modifier_nonneg)
qed

lemma score_keywords_nonneg: "0 \<le> score_keywords ks t 0"
proof -
  have "0 \<le> (\<Sum>k\<leftarrow>ks. keyword_contribution k t)"
    by (rule sum_list_nonneg) (auto simp: keyword_contribution_nonneg)
  then show ?thesis by (simp add: score_keywords_sum)
qed

lemma score_keywords_zero:
  "\<forall>k\<in>set ks. \<not> py_in k t \<Longrightarrow> score_keywords ks t 0 = 0"
  by (induction ks) simp_all

lemma lexicon_labels:
  "map fst emotion_keywords =
     [''joy'', ''sadness'', ''anger'', ''fear'', ''surprise'', ''disgust'', ''anticipation'',
      ''trust'', ''love'', ''anxiety'']"
  by (simp add: emotion_keywords_def)

lemma lexicon_distinct: "distinct (map fst emotion_keywords)"
  by (simp add: lexicon_labels)

lemma detect_labels:
  "map fst (detect_emotion_keywords text) =
     [''joy'', ''sadness'', ''anger'', ''fear'', ''surprise'', ''disgust'', ''anticipation'',
      ''trust'', ''love'', ''anxiety'']"
  by (simp only: detect_emotion_keywords_def score_emotions_keys lexicon_labels)

section \<open>Properties of the analysis\<close>

text \<open>
  Claim C1. For a text with at least one character that is not whitespace, the primary
  emotion is chosen as follows. If some keyword score is strictly positive, it is the
  emotion of maximum keyword score, the first one in the enumeration order of the lexicon
  among those that reach the maximum. Otherwise it comes from the ladder on the combined
  sentiment \<open>c\<close>, the mean of the polarity and the compound score: above 0.5 joy; below
  -0.5 sadness; above 0.1 anticipation; below -0.1 anger when the negative share is above
  0.3 and the compound score below -0.3, fear when the negative share is above 0.3 and the
  compound score at least -0.3, else sadness; otherwise trust when the neutral share is
  above 0.7, else anticipation.
\<close>

theorem analyze_primary_emotion:
  assumes "\<exists>c\<in>set text. \<not> is_space c"
  shows "primary_emotion (analyze textblob vader_analyzer text) =
         (let es = detect_emotion_keywords text;
              c = (fst (textblob text) + compound (vader_analyzer text)) / 2
          in if \<exists>p\<in>set es. snd p > 0 then spec_first_max es
             else spec_ladder c (vader_analyzer text))"
proof -
  from assms have nb: "strip text \<noteq> []" "text \<noteq> []"
    by (auto simp: strip_empty_iff)
  show ?thesis
    using nb
    by (simp add: analyze_def analyze_emotion_def Let_def primary_choice ladder_spec
        analyze_sentiment_def)
qed

text \<open>
  The theorem at two texts: a keyword of joy, and a text without keywords whose sentiment
  is flat.
\<close>

theorem analyze_primary_emotion_witness:
  "primary_emotion (analyze flat_textblob flat_vader ''so glad'') = ''joy''
   \<and> primary_emotion (analyze flat_textblob flat_vader ''ok'') = ''trust''"
proof -
  have h1: "\<exists>c\<in>set ''so glad''. \<not> is_space c" by code_simp
  have h2: "\<exists>c\<in>set ''ok''. \<not> is_space c" by code_simp
  have e1: "(let es = detect_emotion_keywords ''so glad'';
              c = (fst (flat_textblob ''so glad'') + compound (flat_vader ''so glad'')) / 2
          in if \<exists>p\<in>set es. snd p > 0 then spec_first_max es
             else spec_ladder c (flat_vader ''so glad'')) = ''joy''" by code_simp
  have e2: "(let es = detect_emotion_keywords ''ok'';
              c = (fst (flat_textblob ''ok'') + compound (flat_vader ''ok'')) / 2
          in if \<exists>p\<in>set es. snd p > 0 then spec_first_max es
             else spec_ladder c (flat_vader ''ok'')) = ''trust''" by code_simp
  show ?thesis
    using analyze_primary_emotion [OF h1, of flat_textblob flat_vader]
      analyze_primary_emotion [OF h2, of flat_textblob flat_vader]
    by (simp only: e1 e2)
qed

lemma primary_in_scores:
  assumes "\<exists>c\<in>set text. \<not> is_space c"
  shows "primary_emotion (analyze textblob vader_analyzer text)
         \<in> fst ` set (detect_emotion_keywords text)"
proof -
  let ?es = "detect_emotion_keywords text"
  from assms have nb: "strip text \<noteq> []" "text \<noteq> []"
    by (auto simp: strip_empty_iff)
  have keys: "fst ` set ?es = {''joy'', ''sadness'', ''anger'', ''fear'', ''surprise'',
      ''disgust'', ''anticipation'', ''trust'', ''love'', ''anxiety''}"
    using detect_labels [of "text"] by (simp flip: set_map)
  have ne: "?es \<noteq> []" using detect_labels [of "text"] by auto
  have p: "primary_emotion (analyze textblob vader_analyzer text) =
     (if \<exists>p\<in>set ?es. snd p > 0 then spec_first_max ?es
      else spec_ladder (combined_sentiment (analyze_sentiment textblob vader_analyzer text))
             (vader (analyze_sentiment textblob vader_analyzer text)))"
    using nb by (simp add: analyze_def analyze_emotion_def Let_def primary_choice ladder_spec)
  show ?thesis
  proof (cases "\<exists>p\<in>set ?es. snd p > 0")
    case True
    then show ?thesis using p spec_first_max_mem [OF ne] by simp
  next
    case False
    have "spec_ladder (combined_sentiment (analyze_sentiment textblob vader_analyzer text))
             (vader (analyze_sentiment textblob vader_analyzer text)) \<in> fst ` set ?es"
      unfolding keys using spec_ladder_labels by blast
    with False p show ?thesis by simp
  qed
qed

lemma clamp_lower: "(0.3::real) \<le> min (max x 0.3) 0.95"
  by (simp add: min_def max_def)

lemma clamp_upper: "min (max x 0.3) 0.95 \<le> (0.95::real)"
  by (simp add: min_def max_def)

text \<open>
  Claim C2. For an empty or whitespace-only text the confidence is 0.5. For any other
  text the primary emotion has a keyword score \<open>k\<close> in the score map, the confidence is
  \<open>0.4 + min (k * 0.2) 0.3 + |c| * 0.2 + subjectivity * 0.1\<close> clamped to the interval from
  0.3 to 0.95, and so it lies in that interval.
\<close>

theorem analyze_confidence:
  "((\<forall>c\<in>set text. is_space c) \<longrightarrow>
      confidence (analyze textblob vader_analyzer text) = 0.5)
   \<and> ((\<exists>c\<in>set text. \<not> is_space c) \<longrightarrow>
      (\<exists>k. map_of (detect_emotion_keywords text)
               (primary_emotion (analyze textblob vader_analyzer text)) = Some k
         \<and> confidence (analyze textblob vader_analyzer text) =
             spec_clamp 0.3 0.95
               (0.4 + min (k * 0.2) 0.3
                + \<bar>(fst (textblob text) + compound (vader_analyzer text)) / 2\<bar> * 0.2
                + snd (textblob text) * 0.1))
      \<and> 0.3 \<le> confidence (analyze textblob vader_analyzer text)
      \<and> confidence (analyze textblob vader_analyzer text) \<le> 0.95)"
proof (intro conjI impI)
  assume "\<forall>c\<in>set text. is_space c"
  then have "text = [] \<or> strip text = []" by (simp add: blank_iff)
  then show "confidence (analyze textblob vader_analyzer text) = 0.5"
    by (auto simp: analyze_def analyze_emotion_def)
next
  assume a: "\<exists>c\<in>set text. \<not> is_space c"
  let ?es = "detect_emotion_keywords text"
  let ?p = "primary_emotion (analyze textblob vader_analyzer text)"
  let ?sd = "analyze_sentiment textblob vader_analyzer text"
  from a have nb: "strip text \<noteq> []" "text \<noteq> []"
    by (auto simp: strip_empty_iff)
  have conf: "confidence (analyze textblob vader_analyzer text) = calculate_confidence ?es ?p ?sd"
    using nb by (simp add: analyze_def analyze_emotion_def Let_def)
  obtain k where k: "map_of ?es ?p = Some k"
    using primary_in_scores [OF a, of textblob vader_analyzer]
    by (metis domD dom_map_of_conv_image_fst)
  have "calculate_confidence ?es ?p ?sd =
          spec_clamp 0.3 0.95
               (0.4 + min (k * 0.2) 0.3
                + \<bar>(fst (textblob text) + compound (vader_analyzer text)) / 2\<bar> * 0.2
                + snd (textblob text) * 0.1)"
    using k
    by (simp add: calculate_confidence_def get_score_def analyze_sentiment_def Let_def
        spec_clamp_def min_def max_def)
  with k conf show "\<exists>k. map_of ?es ?p = Some k
         \<and> confidence (analyze textblob vader_analyzer text) =
             spec_clamp 0.3 0.95
               (0.4 + min (k * 0.2) 0.3
                + \<bar>(fst (textblob text) + compound (vader_analyzer text)) / 2\<bar> * 0.2
                + snd (textblob text) * 0.1)"
    by simp
  show "0.3 \<le> confidence (analyze textblob vader_analyzer text)"
    unfolding conf calculate_confidence_def Let_def by (rule clamp_lower)
  show "confidence (analyze textblob vader_analyzer text) \<le> 0.95"
    unfolding conf calculate_confidence_def Let_def by (rule clamp_upper)
qed

text \<open>
  The theorem at a text with one keyword, where the confidence is 0.6, and at a text of a
  space and a tab.
\<close>

theorem analyze_confidence_witness:
  "confidence (analyze flat_textblob flat_vader ''so glad'') = 0.6
   \<and> confidence (analyze flat_textblob flat_vader [CHR '' '', CHR 0x09]) = 0.5"
proof -
  have h1: "\<exists>c\<in>set ''so glad''. \<not> is_space c" by code_simp
  have h2: "\<forall>c\<in>set [CHR '' '', CHR 0x09]. is_space c" by code_simp
  have m: "map_of (detect_emotion_keywords ''so glad'')
             (primary_emotion (analyze flat_textblob flat_vader ''so glad'')) = Some 1"
    by code_simp
  from analyze_confidence [of "''so glad''" flat_textblob flat_vader] h1 m
  have "confidence (analyze flat_textblob flat_vader ''so glad'') =
             spec_clamp 0.3 0.95
               (0.4 + min (1 * 0.2) 0.3
                + \<bar>(fst (flat_textblob ''so glad'') + compound (flat_vader ''so glad'')) / 2\<bar> * 0.2
                + snd (flat_textblob ''so glad'') * 0.1)"
    by auto
  then have "confidence (analyze flat_textblob flat_vader ''so glad'') = 0.6"
    by (simp add: spec_clamp_def flat_textblob_def flat_vader_def)
  moreover have "confidence (analyze flat_textblob flat_vader [CHR '' '', CHR 0x09]) = 0.5"
    using analyze_confidence [of "[CHR '' '', CHR 0x09]" flat_textblob flat_vader] h2 by blast
  ultimately show ?thesis by simp
qed

text \<open>
  Claim C3. For a text that is empty or has only whitespace, the analysis is the fixed
  neutral result: the emotion neutral, the confidence 0.5, the sentiment score 0, no
  emotion scores and no sentiment data; and no scorer has run.
\<close>

theorem analyze_blank:
  assumes "text = [] \<or> (\<forall>c\<in>set text. is_space c)"
  shows "analyze_emotion textblob vader_analyzer text =
           (\<lparr> primary_emotion = ''neutral'', confidence = 0.5, sentiment_score = 0.0,
              emotion_scores = [], sentiment = None \<rparr>, [])"
proof -
  from assms have "text = [] \<or> strip text = []"
    using blank_iff [of "text"] by auto
  then show ?thesis
    by (auto simp: analyze_emotion_def)
qed

text \<open>The theorem at a text of a space, a newline and a tab, and at the empty text.\<close>

theorem analyze_blank_witness:
  "analyze_emotion flat_textblob flat_vader [CHR '' '', CHR 0x0A, CHR 0x09] =
           (\<lparr> primary_emotion = ''neutral'', confidence = 0.5, sentiment_score = 0.0,
              emotion_scores = [], sentiment = None \<rparr>, [])
   \<and> analyze_emotion flat_textblob flat_vader [] =
           (\<lparr> primary_emotion = ''neutral'', confidence = 0.5, sentiment_score = 0.0,
              emotion_scores = [], sentiment = None \<rparr>, [])"
proof -
  have h: "\<forall>c\<in>set [CHR '' '', CHR 0x0A, CHR 0x09]. is_space c" by code_simp
  show ?thesis
    using analyze_blank [of "[CHR '' '', CHR 0x0A, CHR 0x09]" flat_textblob flat_vader]
      analyze_blank [of "[]" flat_textblob flat_vader] h
    by blast
qed

text \<open>
  Claim C10. For a text with at least one character that is not whitespace and with all
  keyword scores zero, the primary emotion is one of joy, sadness, anticipation, anger,
  fear and trust, and so none of neutral, surprise, disgust, love and anxiety.
\<close>

theorem fallback_labels:
  assumes "\<exists>c\<in>set text. \<not> is_space c"
    and "\<forall>p\<in>set (detect_emotion_keywords text). snd p = 0"
  shows "primary_emotion (analyze textblob vader_analyzer text)
           \<in> {''joy'', ''sadness'', ''anticipation'', ''anger'', ''fear'', ''trust''}
         \<and> primary_emotion (analyze textblob vader_analyzer text)
           \<notin> {''neutral'', ''surprise'', ''disgust'', ''love'', ''anxiety''}"
proof -
  from assms(1) have nb: "strip text \<noteq> []" "text \<noteq> []"
    by (auto simp: strip_empty_iff)
  from assms(2) have no: "\<not> (\<exists>p\<in>set (detect_emotion_keywords text). snd p > 0)"
    by auto
  have "primary_emotion (analyze textblob vader_analyzer text) =
          spec_ladder (combined_sentiment (analyze_sentiment textblob vader_analyzer text))
             (vader (analyze_sentiment textblob vader_analyzer text))"
    using nb no by (simp add: analyze_def analyze_emotion_def Let_def primary_choice ladder_spec)
  then show ?thesis
    using spec_ladder_labels
      [of "combined_sentiment (analyze_sentiment textblob vader_analyzer text)"
          "vader (analyze_sentiment textblob vader_analyzer text)"]
    by auto
qed

text \<open>The theorem at a text without keywords.\<close>

theorem fallback_labels_witness:
  "primary_emotion (analyze flat_textblob flat_vader ''ok'')
           \<in> {''joy'', ''sadness'', ''anticipation'', ''anger'', ''fear'', ''trust''}
   \<and> primary_emotion (analyze flat_textblob flat_vader ''ok'')
           \<notin> {''neutral'', ''surprise'', ''disgust'', ''love'', ''anxiety''}"
proof -
  have h1: "\<exists>c\<in>set ''ok''. \<not> is_space c" by code_simp
  have h2: "\<forall>p\<in>set (detect_emotion_keywords ''ok''). snd p = 0" by code_simp
  show ?thesis
    using fallback_labels [OF h1 h2, of flat_textblob flat_vader] .
qed

section \<open>Properties of the keyword scorer\<close>

lemma lexicon_keywords_distinct: "\<forall>p\<in>set emotion_keywords. distinct (snd p)"
  by (simp add: emotion_keywords_def)

lemma modifiers_distinct: "distinct (map fst intensity_modifiers)"
  by (simp add: intensity_modifiers_def)

lemma detect_lookup:
  assumes "(e, ks) \<in> set emotion_keywords"
  shows "map_of (detect_emotion_keywords text) e
         = Some (\<Sum>k\<leftarrow>ks. keyword_contribution k (preprocess_text text))"
  using score_emotions_lookup [OF lexicon_distinct assms, of "preprocess_text text"]
  by (simp add: detect_emotion_keywords_def score_keywords_sum)

text \<open>
  Claim C4. Let the normalized text contain \<open>m + ' ' + k\<close> for a modifier \<open>m\<close> and a
  keyword \<open>k\<close> of an emotion. Then what \<open>k\<close> adds to the score of the emotion is the
  multiplier of one modifier, between 0.6 and 2.0: of the first modifier, in the
  enumeration order, that occurs before \<open>k\<close> in the text. So it is the multiplier of
  \<open>m\<close> when no other modifier occurs before \<open>k\<close>, and multipliers are never stacked.
  The keywords of the emotion are distinct and its score is the sum of what each of them
  adds, so a keyword counts once however often it occurs in the text.
\<close>

theorem modifier_contribution:
  assumes "(e, ks) \<in> set emotion_keywords" and "k \<in> set ks"
    and "(m, x) \<in> set intensity_modifiers"
    and "py_in (m @ '' '' @ k) (preprocess_text text)"
  shows "(\<exists>i<length intensity_modifiers.
            py_in (fst (intensity_modifiers ! i) @ '' '' @ k) (preprocess_text text)
          \<and> (\<forall>j<i. \<not> py_in (fst (intensity_modifiers ! j) @ '' '' @ k) (preprocess_text text))
          \<and> keyword_contribution k (preprocess_text text) = snd (intensity_modifiers ! i)
          \<and> 0.6 \<le> snd (intensity_modifiers ! i) \<and> snd (intensity_modifiers ! i) \<le> 2.0)
       \<and> ((\<forall>p\<in>set intensity_modifiers.
              py_in (fst p @ '' '' @ k) (preprocess_text text) \<longrightarrow> p = (m, x))
            \<longrightarrow> keyword_contribution k (preprocess_text text) = x)
       \<and> distinct ks
       \<and> map_of (detect_emotion_keywords text) e
           = Some (\<Sum>k'\<leftarrow>ks. keyword_contribution k' (preprocess_text text))"
proof -
  let ?t = "preprocess_text text"
  let ?ms = "intensity_modifiers"
  have "py_in ((m @ '' '') @ k) ?t" using assms(4) by simp
  then have present: "py_in k ?t" by (rule py_in_append)
  have "\<exists>p\<in>set ?ms. py_in (fst p @ '' '' @ k) ?t"
    using assms(3,4) by force
  from apply_modifier_first [OF this, of 1]
  obtain i where i: "i < length ?ms" "py_in (fst (?ms ! i) @ '' '' @ k) ?t"
    "\<forall>j<i. \<not> py_in (fst (?ms ! j) @ '' '' @ k) ?t"
    "apply_modifier ?ms k ?t 1 = 1 * snd (?ms ! i)" by blast
  have c: "keyword_contribution k ?t = snd (?ms ! i)"
    using present i(4) by (simp add: keyword_contribution_def)
  have r: "0.6 \<le> snd (?ms ! i) \<and> snd (?ms ! i) \<le> 2.0"
    using modifiers_range i(1) nth_mem by blast
  have first: "\<exists>i<length ?ms.
            py_in (fst (?ms ! i) @ '' '' @ k) ?t
          \<and> (\<forall>j<i. \<not> py_in (fst (?ms ! j) @ '' '' @ k) ?t)
          \<and> keyword_contribution k ?t = snd (?ms ! i)
          \<and> 0.6 \<le> snd (?ms ! i) \<and> snd (?ms ! i) \<le> 2.0"
    using i(1,2,3) c r by blast
  have only: "(\<forall>p\<in>set ?ms. py_in (fst p @ '' '' @ k) ?t \<longrightarrow> p = (m, x))
            \<longrightarrow> keyword_contribution k ?t = x"
  proof
    assume a: "\<forall>p\<in>set ?ms. py_in (fst p @ '' '' @ k) ?t \<longrightarrow> p = (m, x)"
    have "?ms ! i \<in> set ?ms" using i(1) by simp
    with a i(2) have "?ms ! i = (m, x)" by blast
    with c show "keyword_contribution k ?t = x" by simp
  qed
  have d: "distinct ks" using lexicon_keywords_distinct assms(1) by force
  show ?thesis
    using first only d detect_lookup [OF assms(1), of "text"] by blast
qed

text \<open>
  The theorem at a text where the keyword occurs three times, once after a modifier: the
  keyword adds 1.5, and the score of joy is 1.5.
\<close>

theorem modifier_contribution_witness:
  "keyword_contribution ''happy'' (preprocess_text ''Very  HAPPY, happy, so happy'') = 1.5
   \<and> map_of (detect_emotion_keywords ''Very  HAPPY, happy, so happy'') ''joy'' = Some 1.5"
proof -
  let ?ks = "[''happy'', ''joyful'', ''excited'', ''cheerful'', ''delighted'', ''elated'',
               ''thrilled'', ''content'', ''pleased'', ''glad'']"
  let ?t = "preprocess_text ''Very  HAPPY, happy, so happy''"
  have h1: "(''joy'', ?ks) \<in> set emotion_keywords" by (simp add: emotion_keywords_def)
  have h2: "''happy'' \<in> set ?ks" by simp
  have h3: "(''very'', 1.5) \<in> set intensity_modifiers" by (simp add: intensity_modifiers_def)
  have h4: "py_in (''very'' @ '' '' @ ''happy'') ?t" by code_simp
  have h5: "\<forall>p\<in>set intensity_modifiers.
              py_in (fst p @ '' '' @ ''happy'') ?t \<longrightarrow> p = (''very'', 1.5)" by code_simp
  have s: "(\<Sum>k'\<leftarrow>?ks. keyword_contribution k' ?t) = 1.5"
    by code_simp
  from modifier_contribution [OF h1 h2 h3 h4] h5
  have a: "keyword_contribution ''happy'' ?t = 1.5"
    and b: "map_of (detect_emotion_keywords ''Very  HAPPY, happy, so happy'') ''joy''
           = Some (\<Sum>k'\<leftarrow>?ks. keyword_contribution k' ?t)"
    by blast+
  show ?thesis using a b [unfolded s] by (rule conjI)
qed

text \<open>
  Claim C5 speaks of a lexicon of 11 labels with neutral among them. The lexicon has 10
  labels, and the score map of a text has no entry for neutral.
\<close>

theorem keyword_scores_lexicon_counterexample:
  "map_of (detect_emotion_keywords ''happy'') ''neutral'' = None
   \<and> length emotion_keywords = 10"
proof -
  have "''neutral'' \<notin> set (map fst (detect_emotion_keywords ''happy''))"
    by (simp only: detect_labels) simp
  then have "map_of (detect_emotion_keywords ''happy'') ''neutral'' = None"
    by (simp add: map_of_eq_None_iff)
  moreover have "length emotion_keywords = 10"
    by (simp add: emotion_keywords_def)
  ultimately show ?thesis by simp
qed

text \<open>
  Claim C5, amended. The keyword scorer scans a lexicon of 10 labels: joy, sadness, anger,
  fear, surprise, disgust, anticipation, trust, love and anxiety, in this order. For every
  text the score map has exactly these labels, each with a score that is not negative, and
  the score 0 for a label none of whose keywords occurs in the normalized text. For a text
  with a character that is not whitespace it is the score map of the analysis.
\<close>

theorem keyword_scores_lexicon:
  "map fst (detect_emotion_keywords text) =
     [''joy'', ''sadness'', ''anger'', ''fear'', ''surprise'', ''disgust'', ''anticipation'',
      ''trust'', ''love'', ''anxiety'']
   \<and> (\<forall>p\<in>set (detect_emotion_keywords text). 0 \<le> snd p)
   \<and> (\<forall>p\<in>set emotion_keywords.
         (\<forall>k\<in>set (snd p). \<not> py_in k (preprocess_text text)) \<longrightarrow>
         map_of (detect_emotion_keywords text) (fst p) = Some 0)
   \<and> ((\<exists>c\<in>set text. \<not> is_space c) \<longrightarrow>
         emotion_scores (analyze textblob vader_analyzer text) = detect_emotion_keywords text)"
proof (intro conjI)
  show "map fst (detect_emotion_keywords text) =
     [''joy'', ''sadness'', ''anger'', ''fear'', ''surprise'', ''disgust'', ''anticipation'',
      ''trust'', ''love'', ''anxiety'']"
    by (rule detect_labels)
  show "\<forall>p\<in>set (detect_emotion_keywords text). 0 \<le> snd p"
    using score_emotions_set [of _ emotion_keywords "preprocess_text text"]
      score_keywords_nonneg
    by (fastforce simp: detect_emotion_keywords_def)
  show "\<forall>p\<in>set emotion_keywords.
         (\<forall>k\<in>set (snd p). \<not> py_in k (preprocess_text text)) \<longrightarrow>
         map_of (detect_emotion_keywords text) (fst p) = Some 0"
  proof (intro ballI impI)
    fix p assume p: "p \<in> set emotion_keywords"
      and no: "\<forall>k\<in>set (snd p). \<not> py_in k (preprocess_text text)"
    have "map_of (score_emotions emotion_keywords (preprocess_text text)) (fst p)
          = Some (score_keywords (snd p) (preprocess_text text) 0)"
      using score_emotions_lookup [OF lexicon_distinct, of "fst p" "snd p"] p by simp
    then show "map_of (detect_emotion_keywords text) (fst p) = Some 0"
      using score_keywords_zero [OF no] by (simp add: detect_emotion_keywords_def)
  qed
  show "(\<exists>c\<in>set text. \<not> is_space c) \<longrightarrow>
         emotion_scores (analyze textblob vader_analyzer text) = detect_emotion_keywords text"
  proof
    assume "\<exists>c\<in>set text. \<not> is_space c"
    then have "strip text \<noteq> []" "text \<noteq> []"
      by (auto simp: strip_empty_iff)
    then show "emotion_scores (analyze textblob vader_analyzer text) = detect_emotion_keywords text"
      by (simp add: analyze_def analyze_emotion_def Let_def)
  qed
qed

text \<open>The theorem at a text without keywords.\<close>

theorem keyword_scores_lexicon_witness:
  "emotion_scores (analyze flat_textblob flat_vader ''ok'') =
     [(''joy'', 0), (''sadness'', 0), (''anger'', 0), (''fear'', 0), (''surprise'', 0),
      (''disgust'', 0), (''anticipation'', 0), (''trust'', 0), (''love'', 0), (''anxiety'', 0)]"
proof -
  have h: "\<exists>c\<in>set ''ok''. \<not> is_space c" by code_simp
  have e: "detect_emotion_keywords ''ok'' =
     [(''joy'', 0), (''sadness'', 0), (''anger'', 0), (''fear'', 0), (''surprise'', 0),
      (''disgust'', 0), (''anticipation'', 0), (''trust'', 0), (''love'', 0), (''anxiety'', 0)]"
    by code_simp
  show ?thesis
    using keyword_scores_lexicon [of "''ok''" flat_textblob flat_vader] h e by simp
qed

section \<open>Facts about the tracker\<close>

lemma bump_not_empty: "bump d k \<noteq> []"
  by (induction d k rule: bump.induct) auto

lemma count_keys_not_empty: "d \<noteq> [] \<or> ks \<noteq> [] \<Longrightarrow> count_keys d ks \<noteq> []"
  by (induction ks arbitrary: d) (auto simp: bump_not_empty)

lemma max_key_count_keys:
  "ks \<noteq> [] \<Longrightarrow> \<exists>m. max_key (count_keys [] ks) = Inr m"
  using count_keys_not_empty [of "[]" ks]
  by (auto simp: max_key_def split: list.splits)

lemma window_in_range:
  assumes "\<bar>days_back\<bar> \<le> 999999999"
    and "0 \<le> now - days_back * us_per_day"
    and "now - days_back * us_per_day \<le> datetime_max"
  shows "get_entries_by_date_range all_entries now days_back
         = Inr (filter (\<lambda>e. timestamp e \<ge> now - days_back * us_per_day) all_entries)"
  using assms
  by (simp add: get_entries_by_date_range_def timedelta_days_def datetime_sub_def)

lemma window_out_of_range:
  assumes "\<not> (\<bar>days_back\<bar> \<le> 999999999 \<and> 0 \<le> now - days_back * us_per_day
              \<and> now - days_back * us_per_day \<le> datetime_max)"
  shows "\<exists>msg. get_entries_by_date_range all_entries now days_back = Inl (OverflowError msg)
               \<and> get_statistics all_entries now days_back = Inl (OverflowError msg)"
  using assms
  by (auto simp: get_statistics_def get_entries_by_date_range_def timedelta_days_def
      datetime_sub_def)

lemma window_sorted:
  "get_entries_by_date_range all_entries now days_back = Inr w \<Longrightarrow>
   sorted (map timestamp all_entries) \<Longrightarrow> sorted (map timestamp w)"
  by (auto simp: get_entries_by_date_range_def sorted_filter split: sum.splits)

lemma add_entry_sorted:
  "sorted (map timestamp entries) \<Longrightarrow> \<forall>e\<in>set entries. timestamp e \<le> now \<Longrightarrow>
   sorted (map timestamp (add_entry entries now txt emo conf sent))"
  by (auto simp: add_entry_def sorted_append)

lemma get_statistics_empty:
  assumes "get_entries_by_date_range all_entries now days_back = Inr []"
  shows "get_statistics all_entries now days_back =
         Inr \<lparr> total_entries = 0, most_common_emotion = ''none'', avg_confidence = 0,
               avg_sentiment = 0, emotion_distribution = [], daily_counts = [],
               trend = ''no data'' \<rparr>"
  using assms by (simp add: get_statistics_def)

lemma window_statistics:
  assumes "get_entries_by_date_range all_entries now days_back = Inr w" and "w \<noteq> []"
  shows "\<exists>st. get_statistics all_entries now days_back = Inr st
           \<and> total_entries st = length w
           \<and> trend st = sentiment_trend w"
proof -
  from assms(2) have "map emotion w \<noteq> []" by simp
  from max_key_count_keys [OF this] obtain m
    where m: "max_key (count_keys [] (map emotion w)) = Inr m" by blast
  show ?thesis
    using assms m by (simp add: get_statistics_def Let_def)
qed

lemma trend_cases:
  "(if m2 > m1 + 0.1 then a else if m2 < m1 - 0.1 then b else c)
   = (if m2 - m1 > (0.1::real) then a else if m1 - m2 > 0.1 then b else c)"
  by auto

text \<open>
  Claim C6. Let the start of the lookback window, \<open>days_back\<close> days before \<open>now\<close>, be a
  \<open>datetime\<close>: \<open>days_back\<close> is at most 999999999 in magnitude and the start lies between
  0001-01-01 and the end of the year 9999. Then the window is made of the entries of the log
  from that start on, and its statistics are computed. If the window has no entries, they
  are the empty snapshot: total 0, most common emotion none, both averages 0, trend no
  data. If it has one to three entries, the trend is insufficient data. If it has four or
  more, the entries of the window, in the order of the log, are split at half their number
  rounded down, so that the extra entry of an odd number goes to the second half, and the
  trend is improving when the mean sentiment of the second half exceeds that of the first
  half by more than 0.1, declining when it is below it by more than 0.1, and stable
  otherwise. The order of the log is chronological in the window whenever it is in the
  log. Outside that range no window exists: the computation of its start raises
  \<open>OverflowError\<close>, as \<open>window_out_of_range\<close> shows.
\<close>

theorem statistics_trend:
  assumes "\<bar>days_back\<bar> \<le> 999999999"
    and "0 \<le> now - days_back * us_per_day"
    and "now - days_back * us_per_day \<le> datetime_max"
  shows "\<exists>w st. get_entries_by_date_range all_entries now days_back = Inr w
     \<and> w = filter (\<lambda>e. timestamp e \<ge> now - days_back * us_per_day) all_entries
     \<and> get_statistics all_entries now days_back = Inr st
     \<and> (let n = length w in
          (n = 0 \<longrightarrow>
             total_entries st = 0 \<and> most_common_emotion st = ''none''
             \<and> avg_confidence st = 0 \<and> avg_sentiment st = 0 \<and> trend st = ''no data'')
        \<and> (1 \<le> n \<and> n \<le> 3 \<longrightarrow> trend st = ''insufficient data'')
        \<and> (4 \<le> n \<longrightarrow>
             (let first_half = take (n div 2) w;
                  second_half = drop (n div 2) w;
                  m1 = sum_list (map entry_sentiment_score first_half)
                         / real (length first_half);
                  m2 = sum_list (map entry_sentiment_score second_half)
                         / real (length second_half)
              in w = first_half @ second_half
                 \<and> length first_half = n div 2
                 \<and> length second_half = n div 2 + n mod 2
                 \<and> trend st = (if m2 - m1 > 0.1 then ''improving''
                                else if m1 - m2 > 0.1 then ''declining''
                                else ''stable'')))
        \<and> (sorted (map timestamp all_entries) \<longrightarrow> sorted (map timestamp w)))"
proof -
  define w where "w = filter (\<lambda>e. timestamp e \<ge> now - days_back * us_per_day) all_entries"
  have win: "get_entries_by_date_range all_entries now days_back = Inr w"
    unfolding w_def using assms by (rule window_in_range)
  define m1 where "m1 = sum_list (map entry_sentiment_score (take (length w div 2) w))
                         / real (length (take (length w div 2) w))"
  define m2 where "m2 = sum_list (map entry_sentiment_score (drop (length w div 2) w))
                         / real (length (drop (length w div 2) w))"
  have srt: "sorted (map timestamp all_entries) \<longrightarrow> sorted (map timestamp w)"
    using window_sorted [OF win] by blast
  have "\<exists>st. get_statistics all_entries now days_back = Inr st
     \<and> (length w = 0 \<longrightarrow>
             total_entries st = 0 \<and> most_common_emotion st = ''none''
             \<and> avg_confidence st = 0 \<and> avg_sentiment st = 0 \<and> trend st = ''no data'')
     \<and> (1 \<le> length w \<and> length w \<le> 3 \<longrightarrow> trend st = ''insufficient data'')
     \<and> (4 \<le> length w \<longrightarrow>
               w = take (length w div 2) w @ drop (length w div 2) w
             \<and> length (take (length w div 2) w) = length w div 2
             \<and> length (drop (length w div 2) w) = length w div 2 + length w mod 2
             \<and> trend st = (if m2 - m1 > 0.1 then ''improving''
                            else if m1 - m2 > 0.1 then ''declining''
                            else ''stable''))
     \<and> (sorted (map timestamp all_entries) \<longrightarrow> sorted (map timestamp w))"
  proof (cases "w = []")
    case True
    have "get_entries_by_date_range all_entries now days_back = Inr []"
      using win True by simp
    from get_statistics_empty [OF this] show ?thesis
      using True by simp
  next
    case False
    from window_statistics [OF win False] obtain st
      where st: "get_statistics all_entries now days_back = Inr st"
        and tr: "trend st = sentiment_trend w" by blast
    have pos: "length w \<noteq> 0" using False by simp
    have small: "1 \<le> length w \<and> length w \<le> 3 \<longrightarrow> trend st = ''insufficient data''"
      using tr by (simp add: sentiment_trend_def)
    have split: "w = take (length w div 2) w @ drop (length w div 2) w"
      by simp
    have len1: "length (take (length w div 2) w) = length w div 2"
      by simp
    have len2: "length (drop (length w div 2) w) = length w div 2 + length w mod 2"
      by (simp, presburger)
    have "4 \<le> length w \<longrightarrow>
        sentiment_trend w = (if m2 > m1 + 0.1 then ''improving''
                             else if m2 < m1 - 0.1 then ''declining'' else ''stable'')"
      by (simp add: sentiment_trend_def mean_def Let_def m1_def m2_def)
    then have big: "4 \<le> length w \<longrightarrow>
        trend st = (if m2 - m1 > 0.1 then ''improving''
                    else if m1 - m2 > 0.1 then ''declining'' else ''stable'')"
      unfolding tr by (simp only: trend_cases)
    show ?thesis
      using st pos small split len1 len2 big srt by blast
  qed
  then obtain st where st: "get_statistics all_entries now days_back = Inr st"
    and body: "(length w = 0 \<longrightarrow>
             total_entries st = 0 \<and> most_common_emotion st = ''none''
             \<and> avg_confidence st = 0 \<and> avg_sentiment st = 0 \<and> trend st = ''no data'')
     \<and> (1 \<le> length w \<and> length w \<le> 3 \<longrightarrow> trend st = ''insufficient data'')
     \<and> (4 \<le> length w \<longrightarrow>
               w = take (length w div 2) w @ drop (length w div 2) w
             \<and> length (take (length w div 2) w) = length w div 2
             \<and> length (drop (length w div 2) w) = length w div 2 + length w mod 2
             \<and> trend st = (if m2 - m1 > 0.1 then ''improving''
                            else if m1 - m2 > 0.1 then ''declining''
                            else ''stable''))
     \<and> (sorted (map timestamp all_entries) \<longrightarrow> sorted (map timestamp w))"
    by blast
  have eq: "w = filter (\<lambda>e. timestamp e \<ge> now - days_back * us_per_day) all_entries"
    by (rule w_def)
  have "get_entries_by_date_range all_entries now days_back = Inr w
     \<and> w = filter (\<lambda>e. timestamp e \<ge> now - days_back * us_per_day) all_entries
     \<and> get_statistics all_entries now days_back = Inr st
     \<and> (let n = length w in
          (n = 0 \<longrightarrow>
             total_entries st = 0 \<and> most_common_emotion st = ''none''
             \<and> avg_confidence st = 0 \<and> avg_sentiment st = 0 \<and> trend st = ''no data'')
        \<and> (1 \<le> n \<and> n \<le> 3 \<longrightarrow> trend st = ''insufficient data'')
        \<and> (4 \<le> n \<longrightarrow>
             (let first_half = take (n div 2) w;
                  second_half = drop (n div 2) w;
                  m1 = sum_list (map entry_sentiment_score first_half)
                         / real (length first_half);
                  m2 = sum_list (map entry_sentiment_score second_half)
                         / real (length second_half)
              in w = first_half @ second_half
                 \<and> length first_half = n div 2
                 \<and> length second_half = n div 2 + n mod 2
                 \<and> trend st = (if m2 - m1 > 0.1 then ''improving''
                                else if m1 - m2 > 0.1 then ''declining''
                                else ''stable'')))
        \<and> (sorted (map timestamp all_entries) \<longrightarrow> sorted (map timestamp w)))"
    unfolding Let_def using win eq st body [unfolded m1_def m2_def] by blast
  then show ?thesis by blast
qed

text \<open>
  The theorem at an empty log, at a window of three entries, and at a window of five
  entries out of a log of six, where the split after the second entry gives a declining
  trend; each time the window starts seven days before a time in January 2024.
\<close>

theorem statistics_trend_witness:
  "(\<exists>st. get_statistics [] monday_morning 7 = Inr st \<and> trend st = ''no data'')
   \<and> (\<exists>st. get_statistics
              [sample_entry monday_morning ''joy'' 0.1,
               sample_entry (monday_morning + 1) ''joy'' 0.9,
               sample_entry (monday_morning + 2) ''joy'' 0.9]
              (monday_morning + 3) 7 = Inr st
           \<and> trend st = ''insufficient data'')
   \<and> (\<exists>st. get_statistics
              [sample_entry (monday_morning - 8 * us_per_day) ''joy'' 0.9,
               sample_entry monday_morning ''joy'' 0.9,
               sample_entry (monday_morning + 1) ''joy'' 0,
               sample_entry (monday_morning + 2) ''joy'' 0,
               sample_entry (monday_morning + 3) ''joy'' 0,
               sample_entry (monday_morning + 4) ''joy'' 0.6]
              (monday_morning + 5) 7 = Inr st
           \<and> trend st = ''declining'')"
proof -
  let ?l3 = "[sample_entry monday_morning ''joy'' 0.1,
               sample_entry (monday_morning + 1) ''joy'' 0.9,
               sample_entry (monday_morning + 2) ''joy'' 0.9]"
  let ?l6 = "[sample_entry (monday_morning - 8 * us_per_day) ''joy'' 0.9,
               sample_entry monday_morning ''joy'' 0.9,
               sample_entry (monday_morning + 1) ''joy'' 0,
               sample_entry (monday_morning + 2) ''joy'' 0,
               sample_entry (monday_morning + 3) ''joy'' 0,
               sample_entry (monday_morning + 4) ''joy'' 0.6]"
  have r: "\<bar>7::int\<bar> \<le> 999999999" by simp
  have lo0: "0 \<le> monday_morning - 7 * us_per_day"
    and hi0: "monday_morning - 7 * us_per_day \<le> datetime_max"
    and lo3: "0 \<le> monday_morning + 3 - 7 * us_per_day"
    and hi3: "monday_morning + 3 - 7 * us_per_day \<le> datetime_max"
    and lo6: "0 \<le> monday_morning + 5 - 7 * us_per_day"
    and hi6: "monday_morning + 5 - 7 * us_per_day \<le> datetime_max"
    by (simp_all add: monday_morning_def us_per_day_def datetime_max_def)
  have f3: "filter (\<lambda>e. timestamp e \<ge> monday_morning + 3 - 7 * us_per_day) ?l3 = ?l3"
    by (simp add: sample_entry_def us_per_day_def)
  have f6: "filter (\<lambda>e. timestamp e \<ge> monday_morning + 5 - 7 * us_per_day) ?l6 = tl ?l6"
    by (simp add: sample_entry_def us_per_day_def)
  have a: "\<exists>st. get_statistics [] monday_morning 7 = Inr st \<and> trend st = ''no data''"
    using statistics_trend [OF r lo0 hi0, of "[]"] unfolding Let_def by auto
  have b: "\<exists>st. get_statistics ?l3 (monday_morning + 3) 7 = Inr st
             \<and> trend st = ''insufficient data''"
    using statistics_trend [OF r lo3 hi3, of ?l3] unfolding f3 Let_def by auto
  have c: "\<exists>st. get_statistics ?l6 (monday_morning + 5) 7 = Inr st
             \<and> trend st = ''declining''"
    using statistics_trend [OF r lo6 hi6, of ?l6] unfolding f6 Let_def
    by (auto simp: sample_entry_def)
  from a b c show ?thesis by blast
qed

section \<open>Facts about runs and streaks\<close>

lemma runs_empty_iff: "runs es = [] \<longleftrightarrow> es = []"
  by (cases es) (auto split: list.splits)

lemma runs_concat: "concat (runs es) = es"
  by (induction es) (auto split: list.splits)

lemma runs_uniform: "\<forall>r\<in>set (runs es). r \<noteq> [] \<and> (\<forall>e\<in>set r. emotion (hd r) = emotion e)"
proof (induction es)
  case Nil
  show ?case by simp
next
  case (Cons e es)
  show ?case
  proof (cases "runs es")
    case Nil
    then show ?thesis by simp
  next
    case rr: (Cons r rs)
    have r: "r \<noteq> []" "\<forall>x\<in>set r. emotion (hd r) = emotion x"
      and rs: "\<forall>q\<in>set rs. q \<noteq> [] \<and> (\<forall>x\<in>set q. emotion (hd q) = emotion x)"
      using Cons.IH unfolding rr by simp_all
    show ?thesis
    proof (cases "emotion (hd r) = emotion e")
      case True
      have "runs (e # es) = (e # r) # rs" using rr True by simp
      moreover have "\<forall>x\<in>set (e # r). emotion (hd (e # r)) = emotion x"
        using r(2) True by auto
      ultimately show ?thesis using rs by simp
    next
      case False
      have "runs (e # es) = [e] # r # rs" using rr False by simp
      then show ?thesis using r rs by simp
    qed
  qed
qed

lemma hd_hd_runs: "es \<noteq> [] \<Longrightarrow> hd (hd (runs es)) = hd es"
  by (cases es) (auto split: list.splits)

lemma runs_maximal:
  "Suc i < length (runs es) \<Longrightarrow>
   emotion (hd (runs es ! i)) \<noteq> emotion (hd (runs es ! Suc i))"
proof (induction es arbitrary: i)
  case Nil
  then show ?case by simp
next
  case (Cons e es)
  show ?case
  proof (cases "runs es")
    case Nil
    with Cons.prems show ?thesis by simp
  next
    case rr: (Cons r rs)
    show ?thesis
    proof (cases "emotion (hd r) = emotion e")
      case True
      then have eq: "runs (e # es) = (e # r) # rs" using rr by simp
      show ?thesis
      proof (cases i)
        case 0
        have "emotion (hd (runs es ! 0)) \<noteq> emotion (hd (runs es ! Suc 0))"
          using Cons.prems eq rr 0 by (intro Cons.IH) simp
        then show ?thesis using eq rr 0 True by simp
      next
        case (Suc j)
        have "emotion (hd (runs es ! Suc j)) \<noteq> emotion (hd (runs es ! Suc (Suc j)))"
          using Cons.prems eq rr Suc by (intro Cons.IH) simp
        then show ?thesis using eq rr Suc by simp
      qed
    next
      case False
      then have eq: "runs (e # es) = [e] # r # rs" using rr by simp
      show ?thesis
      proof (cases i)
        case 0
        then show ?thesis using eq False by simp
      next
        case (Suc j)
        have "emotion (hd (runs es ! j)) \<noteq> emotion (hd (runs es ! Suc j))"
          using Cons.prems eq rr Suc by (intro Cons.IH) simp
        then show ?thesis using eq rr Suc by simp
      qed
    qed
  qed
qed

text \<open>A uniform block in front of a list that starts with another emotion is the first run.\<close>

lemma runs_block:
  assumes "r \<noteq> []" and "\<forall>e\<in>set r. emotion e = c"
    and "ys = [] \<or> emotion (hd ys) \<noteq> c"
  shows "runs (r @ ys) = r # runs ys"
  using assms(1,2)
proof (induction r)
  case Nil
  then show ?case by simp
next
  case (Cons x r)
  show ?case
  proof (cases "r = []")
    case True
    show ?thesis
    proof (cases "runs ys")
      case Nil
      then show ?thesis using True by simp
    next
      case rr: (Cons r' rs)
      then have "ys \<noteq> []" using runs_empty_iff [of ys] by auto
      then have "hd r' = hd ys" using hd_hd_runs [of ys] rr by simp
      then have "emotion (hd r') \<noteq> emotion x"
        using assms(3) \<open>ys \<noteq> []\<close> Cons.prems by simp
      then show ?thesis using True rr by simp
    qed
  next
    case False
    then have "runs (r @ ys) = r # runs ys" using Cons by simp
    moreover have "emotion (hd r) = emotion x" using False Cons.prems by simp
    ultimately show ?thesis by simp
  qed
qed

lemma streak_of_run_snoc:
  assumes "r \<noteq> []"
  shows "(streak_of_run r)\<lparr> streak_count := streak_count (streak_of_run r) + 1,
                             start_date := timestamp e \<rparr> = streak_of_run (r @ [e])"
  using assms by (simp add: streak_of_run_def)

lemma streak_loop_runs:
  assumes "r \<noteq> []" and "\<forall>e\<in>set r. emotion (hd r) = emotion e"
  shows "(case streak_loop es acc (streak_of_run r) of
            (streaks, cur) \<Rightarrow> if streak_count cur \<ge> 2 then streaks @ [cur] else streaks)
         = acc @ map streak_of_run (filter (\<lambda>r. length r \<ge> 2) (runs (r @ es)))"
  using assms
proof (induction es arbitrary: acc r)
  case Nil
  have "runs (r @ []) = r # runs []"
    using Nil by (intro runs_block [where c = "emotion (hd r)"]) simp_all
  then show ?case by (simp add: streak_of_run_def)
next
  case (Cons e es)
  show ?case
  proof (cases "emotion e = emotion (hd r)")
    case True
    have ne: "r @ [e] \<noteq> []" by simp
    have un: "\<forall>x\<in>set (r @ [e]). emotion (hd (r @ [e])) = emotion x"
      using Cons.prems True by auto
    have "streak_loop (e # es) acc (streak_of_run r)
          = streak_loop es acc (streak_of_run (r @ [e]))"
      using True streak_of_run_snoc [OF Cons.prems(1), of e]
      by (simp add: streak_of_run_def)
    then show ?thesis
      using Cons.IH [OF ne un, of acc] by simp
  next
    case False
    let ?acc = "if length r \<ge> 2 then acc @ [streak_of_run r] else acc"
    have step: "streak_loop (e # es) acc (streak_of_run r)
          = streak_loop es ?acc (streak_of_run [e])"
      using False by (simp add: streak_of_run_def)
    have "runs (r @ e # es) = r # runs (e # es)"
      using Cons.prems False by (intro runs_block [where c = "emotion (hd r)"]) simp_all
    then have rhs: "acc @ map streak_of_run (filter (\<lambda>r. length r \<ge> 2) (runs (r @ e # es)))
          = ?acc @ map streak_of_run (filter (\<lambda>r. length r \<ge> 2) (runs ([e] @ es)))"
      by simp
    have "(case streak_loop es ?acc (streak_of_run [e]) of
            (streaks, cur) \<Rightarrow> if streak_count cur \<ge> 2 then streaks @ [cur] else streaks)
         = ?acc @ map streak_of_run (filter (\<lambda>r. length r \<ge> 2) (runs ([e] @ es)))"
      by (intro Cons.IH) simp_all
    then show ?thesis
      unfolding step rhs .
  qed
qed

lemma get_recent_streaks_spec: "get_recent_streaks entries = spec_streaks entries"
proof (cases "length entries < 2")
  case True
  then have "entries = [] \<or> (\<exists>e. entries = [e])"
    by (cases entries) (auto simp: length_Suc_conv)
  then show ?thesis
    by (auto simp: get_recent_streaks_def spec_streaks_def)
next
  case False
  then have ne: "entries \<noteq> []" by auto
  then have rv: "rev entries = last entries # tl (rev entries)"
    by (metis hd_rev list.collapse rev_is_Nil_conv)
  have s: "streak_of_run [last entries]
           = \<lparr> streak_emotion = emotion (last entries), streak_count = 1,
               start_date = timestamp (last entries) \<rparr>"
    by (simp add: streak_of_run_def)
  have "(case streak_loop (tl (rev entries)) [] (streak_of_run [last entries]) of
            (streaks, cur) \<Rightarrow> if streak_count cur \<ge> 2 then streaks @ [cur] else streaks)
         = [] @ map streak_of_run (filter (\<lambda>r. length r \<ge> 2)
                                     (runs ([last entries] @ tl (rev entries))))"
    by (intro streak_loop_runs) simp_all
  then show ?thesis
    using False rv by (simp add: get_recent_streaks_def spec_streaks_def s)
qed

lemma streaks_example:
  assumes "map emotion entries = [''joy'', ''joy'', ''sadness'', ''sadness'', ''sadness'', ''anger'']"
  shows "map (\<lambda>s. (streak_emotion s, streak_count s)) (get_recent_streaks entries)
         = [(''sadness'', 3), (''joy'', 2)]"
proof -
  from assms obtain a b c d e f where es: "entries = [a, b, c, d, e, f]"
    and em: "emotion a = ''joy''" "emotion b = ''joy''" "emotion c = ''sadness''"
      "emotion d = ''sadness''" "emotion e = ''sadness''" "emotion f = ''anger''"
    by (auto simp: map_eq_Cons_conv)
  show ?thesis
    by (simp add: es em get_recent_streaks_def)
qed

text \<open>
  Claim C7. The streaks of a log, computed from the whole log, are those of the maximal
  runs of consecutive entries with the same emotion, taken from the newest run to the
  oldest, for the runs of at least two entries: each streak has the emotion of its run, the
  length of the run and the timestamp of the oldest entry of the run. The runs cover the
  log read backwards, none is empty, all entries of a run have one emotion, and two
  neighbouring runs have different emotions. On a log with the emotions joy, joy, sadness,
  sadness, sadness, anger, oldest first, the streaks are sadness with count 3 and then joy
  with count 2.
\<close>

theorem streaks_are_runs:
  "get_recent_streaks entries = spec_streaks entries
   \<and> concat (runs (rev entries)) = rev entries
   \<and> (\<forall>r\<in>set (runs (rev entries)). r \<noteq> [] \<and> (\<forall>e\<in>set r. emotion e = emotion (hd r)))
   \<and> (\<forall>i. Suc i < length (runs (rev entries)) \<longrightarrow>
          emotion (hd (runs (rev entries) ! i)) \<noteq> emotion (hd (runs (rev entries) ! Suc i)))
   \<and> (map emotion entries = [''joy'', ''joy'', ''sadness'', ''sadness'', ''sadness'', ''anger'']
        \<longrightarrow> map (\<lambda>s. (streak_emotion s, streak_count s)) (get_recent_streaks entries)
             = [(''sadness'', 3), (''joy'', 2)])"
proof (intro conjI)
  show "get_recent_streaks entries = spec_streaks entries"
    by (rule get_recent_streaks_spec)
  show "concat (runs (rev entries)) = rev entries"
    by (rule runs_concat)
  show "\<forall>r\<in>set (runs (rev entries)). r \<noteq> [] \<and> (\<forall>e\<in>set r. emotion e = emotion (hd r))"
    using runs_uniform [of "rev entries"] by metis
  show "\<forall>i. Suc i < length (runs (rev entries)) \<longrightarrow>
          emotion (hd (runs (rev entries) ! i)) \<noteq> emotion (hd (runs (rev entries) ! Suc i))"
    using runs_maximal [of _ "rev entries"] by blast
  show "map emotion entries = [''joy'', ''joy'', ''sadness'', ''sadness'', ''sadness'', ''anger'']
        \<longrightarrow> map (\<lambda>s. (streak_emotion s, streak_count s)) (get_recent_streaks entries)
             = [(''sadness'', 3), (''joy'', 2)]"
    using streaks_example [of entries] by blast
qed

text \<open>The theorem at such a log, with the start dates of the two streaks.\<close>

theorem streaks_are_runs_witness:
  "get_recent_streaks
     [sample_entry 10 ''joy'' 0, sample_entry 20 ''joy'' 0, sample_entry 30 ''sadness'' 0,
      sample_entry 40 ''sadness'' 0, sample_entry 50 ''sadness'' 0, sample_entry 60 ''anger'' 0]
   = [\<lparr> streak_emotion = ''sadness'', streak_count = 3, start_date = 30 \<rparr>,
      \<lparr> streak_emotion = ''joy'', streak_count = 2, start_date = 10 \<rparr>]"
proof -
  let ?l = "[sample_entry 10 ''joy'' 0, sample_entry 20 ''joy'' 0, sample_entry 30 ''sadness'' 0,
      sample_entry 40 ''sadness'' 0, sample_entry 50 ''sadness'' 0, sample_entry 60 ''anger'' 0]"
  have e: "spec_streaks ?l
     = [\<lparr> streak_emotion = ''sadness'', streak_count = 3, start_date = 30 \<rparr>,
        \<lparr> streak_emotion = ''joy'', streak_count = 2, start_date = 10 \<rparr>]"
    by code_simp
  have "get_recent_streaks ?l = spec_streaks ?l"
    using streaks_are_runs [of ?l] by (rule conjunct1)
  then show ?thesis by (simp only: e)
qed

section \<open>Insights and export\<close>

text \<open>
  Claim C8 says that the insight on the days names the days with the most entries. On a log
  with two entries on a Monday and one on the Tuesday after it, the insight names both
  days.
\<close>

theorem insights_list_every_day:
  "get_insights
     [sample_entry monday_morning ''joy'' 0,
      sample_entry (monday_morning + 1) ''joy'' 0,
      sample_entry (monday_morning + us_per_day) ''sadness'' 0]
     (monday_morning + 2 * us_per_day) 7
   = Inr [''You've logged 3 mood entries in the past 7 days.'',
          ''Your most common emotion has been joy.'',
          ''You tend to log entries most often on Monday, Tuesday.'']
   \<and> map (\<lambda>e. day_name (timestamp e))
       [sample_entry monday_morning ''joy'' 0,
        sample_entry (monday_morning + 1) ''joy'' 0,
        sample_entry (monday_morning + us_per_day) ''sadness'' 0]
     = [''Monday'', ''Monday'', ''Tuesday'']"
  by code_simp

text \<open>
  Claim C9 says that every export with a format other than csv and json raises an error.
  On an empty log the export returns the empty string for the format xml.
\<close>

theorem export_invalid_format_counterexample:
  "lower ''xml'' \<notin> {''csv'', ''json''}
   \<and> export_data csv_stub json_stub [] ''xml'' True = Inr []"
  by (simp add: export_data_def lower_def lower_char_def)

text \<open>
  Claim C9, amended. For a format that is neither csv nor json when put in lower case, the
  export of a log that is not empty raises the error of an invalid format, which is the
  result of the call; the export of an empty log returns the empty string.
\<close>

theorem export_invalid_format:
  assumes "lower format \<notin> {''csv'', ''json''}"
  shows "(entries \<noteq> [] \<longrightarrow>
            export_data to_csv to_json entries format include_text
            = Inl (ValueError (''Format must be 'csv' or 'json'' @ [CHR 0x27])))
         \<and> (entries = [] \<longrightarrow>
            export_data to_csv to_json entries format include_text = Inr [])"
  using assms by (simp add: export_data_def Let_def)

text \<open>The theorem at a log of one entry and the format XML.\<close>

theorem export_invalid_format_witness:
  "export_data csv_stub json_stub [sample_entry monday_morning ''joy'' 0] ''XML'' True
   = Inl (ValueError (''Format must be 'csv' or 'json'' @ [CHR 0x27]))"
proof -
  have h: "lower ''XML'' \<notin> {''csv'', ''json''}"
    by code_simp
  have n: "[sample_entry monday_morning ''joy'' 0] \<noteq> []" by simp
  show ?thesis
    using export_invalid_format [OF h, of "[sample_entry monday_morning ''joy'' 0]"
        csv_stub json_stub True] n
    by blast
qed

end
